theory Spec2Isabelle
  imports Main "HOL-Library.Sublist" "HOL-Library.Log_Nat"
begin

section \<open>Exceptions, effects and the outside world\<close>

text \<open>
  The module \<^verbatim>\<open>jaraco/desktop/wallpaper.py\<close> talks to the operating system, the network,
  the file system and an HTML parser. Every raise of the source is a value of \<open>exn\<close>;
  a computation returns \<open>Inl e\<close> when it raises \<open>e\<close> and \<open>Inr v\<close> when it returns \<open>v\<close>.
  Everything the program does to the outside is recorded, in order, as a list of events.
\<close>

datatype exn =
    OSError
  | FileNotFoundError
  | URLError string
  | HTTPError int
  | ZeroDivisionError
  | OverflowError
  | TypeError
  | AttributeError
  | IndexError
  | KeyError string
  | HTMLParseError string
  | CalledProcessError int
  | SystemExit int

text \<open>
  The three \<^verbatim>\<open>except\<close> clauses of the source match by class. \<^verbatim>\<open>HTTPError\<close> is a subclass of
  \<^verbatim>\<open>URLError\<close>, which is a subclass of \<^verbatim>\<open>OSError\<close>, as is \<^verbatim>\<open>FileNotFoundError\<close>.
\<close>

fun is_HTTPError :: "exn \<Rightarrow> bool" where
  "is_HTTPError (HTTPError c) = True"
| "is_HTTPError e = False"

fun is_URLError :: "exn \<Rightarrow> bool" where
  "is_URLError (URLError r) = True"
| "is_URLError (HTTPError c) = True"
| "is_URLError e = False"

fun is_OSError :: "exn \<Rightarrow> bool" where
  "is_OSError OSError = True"
| "is_OSError FileNotFoundError = True"
| "is_OSError (URLError r) = True"
| "is_OSError (HTTPError c) = True"
| "is_OSError e = False"

datatype event =
    Print string
  | UrlOpen string
  | Parse string
  | OpenWB string
  | WriteFile string string
  | Popen "string list"
  | CheckCall "string list"
  | SystemParametersInfo nat nat string nat

text \<open>What \<^verbatim>\<open>os.statvfs\<close> reports: the three fields the source reads.\<close>

record statvfs_result =
  f_bsize :: int
  f_bfree :: int
  f_blocks :: int

text \<open>
  An open HTTP response. Reading it (by \<^verbatim>\<open>read()\<close> or by iterating over its lines) gives
  the body or raises.
\<close>

datatype http_response = HTTPResponse (body: "exn + string")

text \<open>An element of a parsed page: its name and its attributes.\<close>

record tag =
  tag_name :: string
  attrs :: "(string \<times> string) list"

text \<open>
  The answers of the outside world, fixed for one run: the platform name, the home
  directory that \<^verbatim>\<open>expanduser\<close> substitutes, the two free-space queries, the network, the
  file system, the parser (BeautifulSoup, an external library, which yields the elements
  of the page in document order) and the exit status of an external command.
  \<open>GetDiskFreeSpaceEx\<close> yields the two numbers the source asks for, in the order of its
  arguments: the total number of bytes, then the number of free bytes; \<open>None\<close> is a zero
  return value. \<open>has_HTMLParseError\<close> tells whether \<^verbatim>\<open>html.parser\<close> defines the class
  \<^verbatim>\<open>HTMLParseError\<close>, which Python removed in version 3.5.
\<close>

record env =
  platform :: string
  userhome :: string
  statvfs :: "string \<Rightarrow> statvfs_result option"
  GetDiskFreeSpaceEx :: "string \<Rightarrow> (int \<times> int) option"
  urlopen :: "string \<Rightarrow> exn + http_response"
  open_wb :: "string \<Rightarrow> exn option"
  write_file :: "string \<Rightarrow> string \<Rightarrow> exn option"
  BeautifulSoup :: "string \<Rightarrow> exn + tag list"
  has_HTMLParseError :: bool
  spawn :: "string list \<Rightarrow> exn + int"
  ntpath_join :: "string \<Rightarrow> string \<Rightarrow> string"

section \<open>Strings and paths\<close>

text \<open>\<^verbatim>\<open>s.split(c)\<close> for a separator of one character: never an empty list.\<close>

fun split_on :: "char \<Rightarrow> string \<Rightarrow> string list" where
  "split_on c [] = [[]]"
| "split_on c (x # xs) =
     (if x = c then [] # split_on c xs
      else (case split_on c xs of [] \<Rightarrow> [[x]] | w # ws \<Rightarrow> (x # w) # ws))"

text \<open>\<^verbatim>\<open>xs[-1]\<close>: the last element, \<^verbatim>\<open>IndexError\<close> on an empty list.\<close>

definition index_last :: "'a list \<Rightarrow> exn + 'a" where
  "index_last xs = (case xs of [] \<Rightarrow> Inl IndexError | _ \<Rightarrow> Inr (last xs))"

text \<open>\<^verbatim>\<open>posixpath.join(a, b)\<close>.\<close>

definition posix_join :: "string \<Rightarrow> string \<Rightarrow> string" where
  "posix_join a b =
     (if take 1 b = ''/'' then b
      else if a = [] \<or> last a = CHR ''/'' then a @ b
      else a @ ''/'' @ b)"

text \<open>\<^verbatim>\<open>os.path.join\<close>: \<^verbatim>\<open>ntpath\<close> on Windows (taken from the environment), \<^verbatim>\<open>posixpath\<close> elsewhere.\<close>

definition os_path_join :: "env \<Rightarrow> string \<Rightarrow> string \<Rightarrow> string" where
  "os_path_join env a b =
     (if platform env = ''win32'' then ntpath_join env a b else posix_join a b)"

text \<open>Decimal digits of a number, as \<^verbatim>\<open>str\<close> and f-strings print it.\<close>

fun str_nat :: "nat \<Rightarrow> string" where
  "str_nat n =
     (if n < 10 then [char_of (48 + n)]
      else str_nat (n div 10) @ [char_of (48 + n mod 10)])"

definition str_int :: "int \<Rightarrow> string" where
  "str_int i = (if i < 0 then ''-'' @ str_nat (nat (- i)) else str_nat (nat i))"

section \<open>The image downloader\<close>

text \<open>
  The body of the \<^verbatim>\<open>try\<close> block of \<^verbatim>\<open>download_wallpaper\<close>: open the URL, announce the
  download, open the output file for binary writing, read the response, write it.
  Each step may raise, and the events up to the raise stay.
\<close>

definition download_try :: "env \<Rightarrow> string \<Rightarrow> string \<Rightarrow> event list \<times> (exn + unit)" where
  "download_try env url outpath =
     (case urlopen env url of
        Inl e \<Rightarrow> ([UrlOpen url], Inl e)
      | Inr f \<Rightarrow>
          (case open_wb env outpath of
             Some e \<Rightarrow> ([UrlOpen url, Print (''Downloading '' @ url)], Inl e)
           | None \<Rightarrow>
               (case body f of
                  Inl e \<Rightarrow> ([UrlOpen url, Print (''Downloading '' @ url), OpenWB outpath], Inl e)
                | Inr bytes \<Rightarrow>
                    (case write_file env outpath bytes of
                       Some e \<Rightarrow>
                         ([UrlOpen url, Print (''Downloading '' @ url), OpenWB outpath], Inl e)
                     | None \<Rightarrow>
                         ([UrlOpen url, Print (''Downloading '' @ url), OpenWB outpath,
                           WriteFile outpath bytes], Inr ())))))"

text \<open>The two \<^verbatim>\<open>except\<close> clauses, in the order of the source; anything else propagates.\<close>

definition download_except :: "string \<Rightarrow> string \<Rightarrow> exn \<Rightarrow> event list \<times> (exn + string)" where
  "download_except url outpath e =
     (case e of
        HTTPError code \<Rightarrow> ([Print (''HTTP Error: '' @ str_int code @ '' '' @ url)], Inr outpath)
      | URLError reason \<Rightarrow> ([Print (''URL Error: '' @ reason @ '' '' @ url)], Inr outpath)
      | _ \<Rightarrow> ([], Inl e))"

definition outpath_of :: "env \<Rightarrow> string \<Rightarrow> string \<Rightarrow> string \<Rightarrow> exn + string" where
  "outpath_of env url picture_dir filename =
     (case index_last (split_on CHR ''.'' url) of
        Inl e \<Rightarrow> Inl e
      | Inr ext \<Rightarrow> Inr (os_path_join env picture_dir (filename @ ''.'' @ ext)))"

definition download_wallpaper ::
    "env \<Rightarrow> string \<Rightarrow> string \<Rightarrow> string \<Rightarrow> event list \<times> (exn + string)" where
  "download_wallpaper env url picture_dir filename =
     (case outpath_of env url picture_dir filename of
        Inl e \<Rightarrow> ([], Inl e)
      | Inr outpath \<Rightarrow>
          (case download_try env url outpath of
             (evs, Inr u) \<Rightarrow> (evs, Inr outpath)
           | (evs, Inl e) \<Rightarrow>
               (case download_except url outpath e of (evs', r) \<Rightarrow> (evs @ evs', r))))"

text \<open>
  The path \<^verbatim>\<open>download_wallpaper\<close> computes before it touches the network; \<open>outpath_of\<close>
  always yields it, since \<^verbatim>\<open>split\<close> never returns an empty list.
\<close>

definition download_path :: "env \<Rightarrow> string \<Rightarrow> string \<Rightarrow> string \<Rightarrow> string" where
  "download_path env url picture_dir filename =
     os_path_join env picture_dir (filename @ ''.'' @ last (split_on CHR ''.'' url))"

text \<open>What identifies the failure in a transport error: the status code or the reason.\<close>

fun exn_detail :: "exn \<Rightarrow> string" where
  "exn_detail (HTTPError code) = str_int code"
| "exn_detail (URLError reason) = reason"
| "exn_detail e = []"

section \<open>The disk space checker\<close>

subsection \<open>Python floats\<close>

text \<open>
  \<^verbatim>\<open>free / total * 100\<close> is computed in IEEE 754 binary64. A finite double is modelled
  by the rational it denotes, and \<open>Infinite\<close> stands for an infinity of either sign.
  \<open>to_double\<close> rounds a rational to the nearest double, ties to even: the exponent is
  \<open>\<lfloor>log\<^sub>2 |x|\<rfloor>\<close>, not below \<open>-1022\<close> (gradual underflow), the significand has 53 bits,
  and a rounded magnitude of \<open>2\<^sup>1\<^sup>0\<^sup>2\<^sup>4\<close> or more is infinite.
\<close>

definition pow2 :: "int \<Rightarrow> rat" where
  "pow2 k = (if 0 \<le> k then 2 ^ nat k else 1 / 2 ^ nat (- k))"

definition ilog2 :: "rat \<Rightarrow> int" where
  "ilog2 x = (if 1 \<le> x then bitlen \<lfloor>x\<rfloor> - 1 else - bitlen (\<lceil>1 / x\<rceil> - 1))"

definition round_half_even :: "rat \<Rightarrow> int" where
  "round_half_even q =
     (let f = \<lfloor>q\<rfloor>; r = q - of_int f
      in if r < 1 / 2 then f
         else if 1 / 2 < r then f + 1
         else if even f then f else f + 1)"

datatype pyfloat = Finite rat | Infinite

definition to_double :: "rat \<Rightarrow> pyfloat" where
  "to_double x =
     (if x = 0 then Finite 0
      else let e = max (ilog2 \<bar>x\<bar>) (- 1022);
               q = pow2 (e - 52);
               y = of_int (round_half_even (\<bar>x\<bar> / q)) * q
           in if pow2 1024 \<le> y then Infinite else Finite (sgn x * y))"

text \<open>
  \<^verbatim>\<open>a / b\<close> on two integers: the correctly rounded quotient, \<^verbatim>\<open>ZeroDivisionError\<close> for a
  zero divisor, \<^verbatim>\<open>OverflowError\<close> when the quotient is too large for a float.
\<close>

definition int_truediv :: "int \<Rightarrow> int \<Rightarrow> exn + rat" where
  "int_truediv a b =
     (if b = 0 then Inl ZeroDivisionError
      else (case to_double (of_int a / of_int b) of
              Infinite \<Rightarrow> Inl OverflowError
            | Finite y \<Rightarrow> Inr y))"

text \<open>
  \<^verbatim>\<open>x * n\<close> for a finite float and an integer that is itself a double (as 100 is): the
  rounded product, or an infinity.
\<close>

definition float_mul :: "rat \<Rightarrow> rat \<Rightarrow> pyfloat" where
  "float_mul x y = to_double (x * y)"

text \<open>\<^verbatim>\<open>round(x)\<close> with one argument: the nearest integer, ties to even.\<close>

definition py_round :: "pyfloat \<Rightarrow> exn + int" where
  "py_round x = (case x of Infinite \<Rightarrow> Inl OverflowError | Finite y \<Rightarrow> Inr (round_half_even y))"

subsection \<open>\<^verbatim>\<open>free_space\<close>\<close>

definition get_free_bytes_win32 :: "env \<Rightarrow> string \<Rightarrow> exn + (int \<times> int)" where
  "get_free_bytes_win32 env dir =
     (case GetDiskFreeSpaceEx env dir of
        None \<Rightarrow> Inl OSError
      | Some (total_bytes, free_bytes) \<Rightarrow> Inr (free_bytes, total_bytes))"

definition get_free_bytes_default :: "env \<Rightarrow> string \<Rightarrow> exn + (int \<times> int)" where
  "get_free_bytes_default env dir =
     (case statvfs env dir of
        None \<Rightarrow> Inl OSError
      | Some stat \<Rightarrow> Inr (f_bsize stat * f_bfree stat, f_bsize stat * f_blocks stat))"

text \<open>
  \<^verbatim>\<open>globals().get('_get_free_bytes_' + sys.platform, _get_free_bytes_default)\<close>: the two
  functions of that prefix defined so far, with the default variant as fallback.
\<close>

definition get_free_bytes :: "env \<Rightarrow> string \<Rightarrow> exn + (int \<times> int)" where
  "get_free_bytes env =
     (case map_of [(''_get_free_bytes_win32'', get_free_bytes_win32),
                   (''_get_free_bytes_default'', get_free_bytes_default)]
                  (''_get_free_bytes_'' @ platform env) of
        Some f \<Rightarrow> f env
      | None \<Rightarrow> get_free_bytes_default env)"

text \<open>\<^verbatim>\<open>free_space\<close> returns \<^verbatim>\<open>False\<close> or an integer.\<close>

datatype pyval = PyFalse | PyInt int

definition free_space :: "env \<Rightarrow> string \<Rightarrow> exn + pyval" where
  "free_space env dir =
     (case get_free_bytes env dir of
        Inl e \<Rightarrow> (if is_OSError e then Inr PyFalse else Inl e)
      | Inr (free_bytes, total_bytes) \<Rightarrow>
          (case int_truediv free_bytes total_bytes of
             Inl e \<Rightarrow> Inl e
           | Inr ratio \<Rightarrow>
               (case py_round (float_mul ratio 100) of
                  Inl e \<Rightarrow> Inl e
                | Inr n \<Rightarrow> Inr (PyInt n))))"

text \<open>Truth value and integer value of what \<^verbatim>\<open>free_space\<close> returns (\<^verbatim>\<open>False == 0\<close>).\<close>

fun truthy :: "pyval \<Rightarrow> bool" where
  "truthy PyFalse = False"
| "truthy (PyInt n) = (n \<noteq> 0)"

fun int_of :: "pyval \<Rightarrow> int" where
  "int_of PyFalse = 0"
| "int_of (PyInt n) = n"

section \<open>The metadata fetcher\<close>

text \<open>\<^verbatim>\<open>needle in haystack\<close> on byte strings.\<close>

fun bytes_in :: "string \<Rightarrow> string \<Rightarrow> bool" where
  "bytes_in needle [] = (needle = [])"
| "bytes_in needle (c # cs) = (prefix needle (c # cs) \<or> bytes_in needle cs)"

text \<open>
  Iterating over a response yields its lines: each ends with its newline, the last one
  may lack it.
\<close>

fun readlines :: "string \<Rightarrow> string list" where
  "readlines [] = []"
| "readlines (c # cs) =
     (if c = CHR 0x0A then [c] # readlines cs
      else (case readlines cs of [] \<Rightarrow> [[c]] | l # ls \<Rightarrow> (c # l) # ls))"

definition iter_lines :: "http_response \<Rightarrow> exn + string list" where
  "iter_lines res = (case body res of Inl e \<Rightarrow> Inl e | Inr bytes \<Rightarrow> Inr (readlines bytes))"

text \<open>\<^verbatim>\<open>b''.join(line for line in res if b'document.write' not in line)\<close>.\<close>

definition join_clean_lines :: "string list \<Rightarrow> string" where
  "join_clean_lines res = concat [line. line \<leftarrow> res, \<not> bytes_in ''document.write'' line]"

text \<open>
  \<^verbatim>\<open>soup.find("meta", {...})\<close>: the first element of that name with those attribute values,
  or \<^verbatim>\<open>None\<close>. \<^verbatim>\<open>x['content']\<close>: \<^verbatim>\<open>TypeError\<close> on \<^verbatim>\<open>None\<close>, \<^verbatim>\<open>KeyError\<close> on a missing attribute.
\<close>

definition soup_find :: "tag list \<Rightarrow> string \<Rightarrow> (string \<times> string) list \<Rightarrow> tag option" where
  "soup_find soup name want =
     find (\<lambda>t. tag_name t = name \<and> list_all (\<lambda>(k, v). map_of (attrs t) k = Some v) want) soup"

definition getitem :: "tag option \<Rightarrow> string \<Rightarrow> exn + string" where
  "getitem t key =
     (case t of
        None \<Rightarrow> Inl TypeError
      | Some el \<Rightarrow> (case map_of (attrs el) key of None \<Rightarrow> Inl (KeyError key) | Some v \<Rightarrow> Inr v))"

text \<open>\<^verbatim>\<open>get_wallpaper_details\<close> returns \<^verbatim>\<open>False\<close> or a \<^verbatim>\<open>URLDetail\<close>.\<close>

datatype details = DetailsFalse | URLDetail string string

definition find_details :: "tag list \<Rightarrow> exn + details" where
  "find_details soup =
     (case getitem (soup_find soup ''meta'' [(''name'', ''twitter:image:src'')]) ''content'' of
        Inl e \<Rightarrow> Inl e
      | Inr url \<Rightarrow>
          (case getitem (soup_find soup ''meta'' [(''name'', ''twitter:title'')]) ''content'' of
             Inl e \<Rightarrow> Inl e
           | Inr title \<Rightarrow> Inr (URLDetail url title)))"

text \<open>
  \<^verbatim>\<open>get_wallpaper_details\<close>. A transport error on opening the page gives \<^verbatim>\<open>False\<close>. When the
  parser raises, the clause \<^verbatim>\<open>except html.parser.HTMLParseError\<close> is evaluated: where that
  name is not defined the lookup raises \<^verbatim>\<open>AttributeError\<close>; where it is, a parse error is
  printed and ends the run with code 4, and any other exception propagates. The two
  subscripts then raise when an element or its \<^verbatim>\<open>content\<close> is missing.
\<close>

definition get_wallpaper_details :: "env \<Rightarrow> string \<Rightarrow> event list \<times> (exn + details)" where
  "get_wallpaper_details env base_url =
     (case urlopen env base_url of
        Inl e \<Rightarrow> ([UrlOpen base_url], if is_URLError e then Inr DetailsFalse else Inl e)
      | Inr res \<Rightarrow>
          (case iter_lines res of
             Inl e \<Rightarrow> ([UrlOpen base_url], Inl e)
           | Inr lines \<Rightarrow>
               (let content = join_clean_lines lines
                in case BeautifulSoup env content of
                     Inl e \<Rightarrow>
                       (if \<not> has_HTMLParseError env
                        then ([UrlOpen base_url, Parse content], Inl AttributeError)
                        else (case e of
                                HTMLParseError msg \<Rightarrow>
                                  ([UrlOpen base_url, Parse content, Print msg],
                                   Inl (SystemExit 4))
                              | _ \<Rightarrow> ([UrlOpen base_url, Parse content], Inl e)))
                   | Inr soup \<Rightarrow> ([UrlOpen base_url, Parse content], find_details soup))))"

text \<open>\<^verbatim>\<open>url, title = ...\<close>: unpacking \<^verbatim>\<open>False\<close> raises \<^verbatim>\<open>TypeError\<close>.\<close>

definition unpack2 :: "details \<Rightarrow> exn + (string \<times> string)" where
  "unpack2 d = (case d of DetailsFalse \<Rightarrow> Inl TypeError | URLDetail u t \<Rightarrow> Inr (u, t))"

section \<open>The wallpaper setter\<close>

definition set_wallpaper_linux :: "env \<Rightarrow> string \<Rightarrow> event list \<times> (exn + unit)" where
  "set_wallpaper_linux env filename =
     (let cmd = [''gconftool-2'', ''-t'', ''str'', ''--set'',
                 ''/desktop/gnome/background/picture_filename'', filename]
      in case spawn env cmd of
           Inl e \<Rightarrow> ([], Inl e)
         | Inr status \<Rightarrow> ([Popen cmd], Inr ()))"

definition set_wallpaper_win32 :: "env \<Rightarrow> string \<Rightarrow> event list \<times> (exn + unit)" where
  "set_wallpaper_win32 env filename = ([SystemParametersInfo 0x14 0 filename 3], Inr ())"

definition set_wallpaper_darwin :: "env \<Rightarrow> string \<Rightarrow> event list \<times> (exn + unit)" where
  "set_wallpaper_darwin env filename =
     (let cmd = [''defaults'', ''write'', ''com.apple.desktop'', ''Background'',
                 ''{default = {ImageFilePath = '' @ [CHR 0x22] @ filename @ [CHR 0x22]
                   @ ''; };}'']
      in case spawn env cmd of
           Inl e \<Rightarrow> ([], Inl e)
         | Inr status \<Rightarrow>
             (if status = 0 then ([CheckCall cmd], Inr ())
              else ([CheckCall cmd], Inl (CalledProcessError status))))"

text \<open>
  \<^verbatim>\<open>set_wallpaper = globals()['_set_wallpaper_' + sys.platform]\<close>, evaluated when the module
  is loaded: a subscript, so a missing name raises \<^verbatim>\<open>KeyError\<close>.
\<close>

definition lookup_set_wallpaper ::
    "env \<Rightarrow> exn + (env \<Rightarrow> string \<Rightarrow> event list \<times> (exn + unit))" where
  "lookup_set_wallpaper env =
     (case map_of [(''_set_wallpaper_linux'', set_wallpaper_linux),
                   (''_set_wallpaper_win32'', set_wallpaper_win32),
                   (''_set_wallpaper_darwin'', set_wallpaper_darwin)]
                  (''_set_wallpaper_'' @ platform env) of
        None \<Rightarrow> Inl (KeyError (''_set_wallpaper_'' @ platform env))
      | Some f \<Rightarrow> Inr f)"

section \<open>The module and its driver\<close>

text \<open>The module's globals after loading: the three settings and the chosen setter.\<close>

record globals =
  picture_dir :: string
  free_space_minimum :: int
  base_url :: string
  set_wallpaper :: "env \<Rightarrow> string \<Rightarrow> event list \<times> (exn + unit)"

definition load_module :: "env \<Rightarrow> exn + globals" where
  "load_module env =
     (case lookup_set_wallpaper env of
        Inl e \<Rightarrow> Inl e
      | Inr f \<Rightarrow>
          Inr \<lparr> picture_dir = userhome env @ ''/Pictures/NatGeoPics'',
                free_space_minimum = 25,
                base_url = ''http://photography.nationalgeographic.com/photography/photo-of-the-day'',
                set_wallpaper = f \<rparr>)"

definition fetch_and_set :: "env \<Rightarrow> globals \<Rightarrow> event list \<times> (exn + unit)" where
  "fetch_and_set env g =
     (case get_wallpaper_details env (base_url g) of
        (evs, Inl e) \<Rightarrow> (evs, Inl e)
      | (evs, Inr d) \<Rightarrow>
          (case unpack2 d of
             Inl e \<Rightarrow> (evs, Inl e)
           | Inr (url, title) \<Rightarrow>
               (if url = [] then (evs @ [Print ''No wallpaper URL found.''], Inl (SystemExit 3))
                else (case download_wallpaper env url (picture_dir g) title of
                        (evs', Inl e) \<Rightarrow> (evs @ evs', Inl e)
                      | (evs', Inr filename) \<Rightarrow>
                          (case set_wallpaper g env filename of
                             (evs'', r) \<Rightarrow> (evs @ evs' @ evs'', r))))))"

definition set_random_wallpaper :: "env \<Rightarrow> globals \<Rightarrow> event list \<times> (exn + unit)" where
  "set_random_wallpaper env g =
     (case free_space env (picture_dir g) of
        Inl e \<Rightarrow> ([], Inl e)
      | Inr fs \<Rightarrow>
          (if \<not> truthy fs
           then ([Print (picture_dir g @ '' does not exist, please create.'')],
                 Inl (SystemExit 1))
           else if int_of fs \<le> free_space_minimum g
           then ([Print (''Not enough free space in '' @ picture_dir g @ ''! (''
                         @ str_int (int_of fs) @ ''% free)'')],
                 Inl (SystemExit 2))
           else fetch_and_set env g))"

text \<open>Running the module as a script: load it, then call the driver.\<close>

definition run_script :: "env \<Rightarrow> event list \<times> (exn + unit)" where
  "run_script env =
     (case load_module env of
        Inl e \<Rightarrow> ([], Inl e)
      | Inr g \<Rightarrow> set_random_wallpaper env g)"

text \<open>
  The exit status of the process: the code of a \<^verbatim>\<open>SystemExit\<close> (the source raises it with
  the codes 1 to 4 only), 1 for any other uncaught exception, 0 for a normal end.
\<close>

definition exit_status :: "exn + unit \<Rightarrow> int" where
  "exit_status r =
     (case r of Inr u \<Rightarrow> 0 | Inl (SystemExit code) \<Rightarrow> code | Inl e \<Rightarrow> 1)"

text \<open>Whether a run touched the network.\<close>

fun is_network :: "event \<Rightarrow> bool" where
  "is_network (UrlOpen u) = True"
| "is_network e = False"

section \<open>A sample environment\<close>

text \<open>
  A Linux machine whose picture directory exists on a file system with 60 percent free,
  a network that serves one image and one page, and a parser that finds the two meta
  elements of that page once the script line is gone, and nothing in the page as served.
\<close>

definition sample_page :: string where
  "sample_page = ''<meta name=twitter:image:src content=http://x/img.jpg>'' @ [CHR 0x0A]
     @ ''<script>document.write(1)</script>'' @ [CHR 0x0A]
     @ ''<meta name=twitter:title content=My Photo>'' @ [CHR 0x0A]"

text \<open>The same page without its script line, and a page that lacks the image element.\<close>

definition sample_clean_page :: string where
  "sample_clean_page = ''<meta name=twitter:image:src content=http://x/img.jpg>'' @ [CHR 0x0A]
     @ ''<meta name=twitter:title content=My Photo>'' @ [CHR 0x0A]"

definition untagged_page :: string where
  "untagged_page = ''<meta name=twitter:title content=My Photo>'' @ [CHR 0x0A]"

definition title_only_soup :: "tag list" where
  "title_only_soup =
     [\<lparr>tag_name = ''meta'', attrs = [(''name'', ''twitter:title''), (''content'', ''My Photo'')]\<rparr>]"

definition sample_soup :: "tag list" where
  "sample_soup =
     [\<lparr>tag_name = ''meta'', attrs = [(''name'', ''twitter:image:src''), (''content'', ''http://x/img.jpg'')]\<rparr>,
      \<lparr>tag_name = ''meta'', attrs = [(''name'', ''twitter:title''), (''content'', ''My Photo'')]\<rparr>]"

definition sample_env :: env where
  "sample_env = \<lparr>
     platform = ''linux'',
     userhome = ''/home/u'',
     statvfs = (\<lambda>d. if d = ''/home/u/Pictures/NatGeoPics''
                     then Some \<lparr>f_bsize = 4096, f_bfree = 600, f_blocks = 1000\<rparr> else None),
     GetDiskFreeSpaceEx = (\<lambda>d. None),
     urlopen = (\<lambda>u. if u = ''http://x/img.jpg'' then Inr (HTTPResponse (Inr ''JPEG''))
                     else if u = ''http://photography.nationalgeographic.com/photography/photo-of-the-day''
                     then Inr (HTTPResponse (Inr sample_page))
                     else Inl (URLError ''no route to host'')),
     open_wb = (\<lambda>p. None),
     write_file = (\<lambda>p b. None),
     BeautifulSoup = (\<lambda>c. if c = sample_clean_page then Inr sample_soup
                           else if c = untagged_page then Inr title_only_soup
                           else Inr []),
     has_HTMLParseError = False,
     spawn = (\<lambda>cmd. Inr 0),
     ntpath_join = (\<lambda>a b. a @ [CHR 0x5C] @ b)
   \<rparr>"

text \<open>The module's globals as loaded on that machine.\<close>

definition sample_globals :: globals where
  "sample_globals = \<lparr>
     picture_dir = ''/home/u/Pictures/NatGeoPics'',
     free_space_minimum = 25,
     base_url = ''http://photography.nationalgeographic.com/photography/photo-of-the-day'',
     set_wallpaper = set_wallpaper_linux \<rparr>"

text \<open>
  Variations: a file system that reports no blocks at all, a missing picture directory,
  a full disk, a disk with 20 percent free, no network, and a page without the
  \<^verbatim>\<open>twitter:image:src\<close> element.
\<close>

definition empty_fs_env :: env where
  "empty_fs_env = sample_env\<lparr>statvfs := (\<lambda>d. if d = ''/home/u/Pictures/NatGeoPics''
       then Some \<lparr>f_bsize = 4096, f_bfree = 0, f_blocks = 0\<rparr> else None)\<rparr>"

definition missing_dir_env :: env where
  "missing_dir_env = sample_env\<lparr>statvfs := (\<lambda>d. None)\<rparr>"

definition full_disk_env :: env where
  "full_disk_env = sample_env\<lparr>statvfs := (\<lambda>d. if d = ''/home/u/Pictures/NatGeoPics''
       then Some \<lparr>f_bsize = 4096, f_bfree = 0, f_blocks = 1000\<rparr> else None)\<rparr>"

definition low_space_env :: env where
  "low_space_env = sample_env\<lparr>statvfs := (\<lambda>d. if d = ''/home/u/Pictures/NatGeoPics''
       then Some \<lparr>f_bsize = 4096, f_bfree = 200, f_blocks = 1000\<rparr> else None)\<rparr>"

definition offline_env :: env where
  "offline_env = sample_env\<lparr>urlopen := (\<lambda>u. Inl (URLError ''no route to host''))\<rparr>"

definition untagged_env :: env where
  "untagged_env = sample_env\<lparr>urlopen := (\<lambda>u. Inr (HTTPResponse (Inr untagged_page)))\<rparr>"

text \<open>
  The parser input as the specification words it: the concatenation, in their order, of
  the lines of the body that do not contain the marker.
\<close>

definition spec_parser_input :: "string \<Rightarrow> string" where
  "spec_parser_input bytes =
     concat (filter (\<lambda>line. \<not> sublist ''document.write'' line) (readlines bytes))"

text \<open>What a run handed to the HTML parser.\<close>

fun parsed :: "event list \<Rightarrow> string list" where
  "parsed [] = []"
| "parsed (Parse c # evs) = c # parsed evs"
| "parsed (e # evs) = parsed evs"

section \<open>Properties of the downloader\<close>

lemma split_on_nonempty: "split_on c s \<noteq> []"
  by (induction s) (auto split: list.splits)

lemma outpath_of_eq: "outpath_of env url d fn = Inr (download_path env url d fn)"
  using split_on_nonempty[of "CHR ''.''" url]
  by (auto simp: outpath_of_def download_path_def index_last_def split: list.splits)

lemma sublist_mid: "sublist b (a @ b @ c)"
  by (auto simp: sublist_def)

lemma sublist_last_part: "sublist u (a @ b @ u)"
  by (metis append.assoc append_Nil2 sublist_appendI)

lemma download_wallpaper_completes:
  assumes "download_try env url (download_path env url d fn) = (evs, Inr u)"
  shows "download_wallpaper env url d fn = (evs, Inr (download_path env url d fn))"
  using assms by (simp add: download_wallpaper_def outpath_of_eq)

lemma download_wallpaper_raises:
  assumes "download_try env url (download_path env url d fn) = (evs, Inl e)"
  shows "download_wallpaper env url d fn
         = (evs @ fst (download_except url (download_path env url d fn) e),
            snd (download_except url (download_path env url d fn) e))"
  using assms by (simp add: download_wallpaper_def outpath_of_eq split: prod.splits)

lemma report_mentions:
  "sublist url (pre @ x @ sp @ url)" "sublist x (pre @ x @ sp @ url)"
  using sublist_last_part[of url "pre @ x" sp] sublist_mid[of x pre "sp @ url"] by simp_all

lemma download_except_transport:
  assumes "is_URLError e"
  shows "\<exists>msg. download_except url p e = ([Print msg], Inr p)
               \<and> sublist url msg \<and> sublist (exn_detail e) msg"
proof (cases e)
  case (HTTPError c)
  let ?m = "''HTTP Error: '' @ str_int c @ '' '' @ url"
  have a: "download_except url p e = ([Print ?m], Inr p)"
    by (simp add: download_except_def HTTPError)
  have b: "sublist url ?m" by (rule report_mentions(1))
  have "sublist (str_int c) ?m" by (rule report_mentions(2))
  then have c: "sublist (exn_detail e) ?m" by (simp only: HTTPError exn_detail.simps)
  from a b c show ?thesis by (intro exI[of _ ?m] conjI)
next
  case (URLError r)
  let ?m = "''URL Error: '' @ r @ '' '' @ url"
  have a: "download_except url p e = ([Print ?m], Inr p)"
    by (simp add: download_except_def URLError)
  have b: "sublist url ?m" by (rule report_mentions(1))
  have "sublist r ?m" by (rule report_mentions(2))
  then have c: "sublist (exn_detail e) ?m" by (simp only: URLError exn_detail.simps)
  from a b c show ?thesis by (intro exI[of _ ?m] conjI)
qed (use assms in auto)

text \<open>
  Claim C3. When the \<^verbatim>\<open>try\<close> block of \<^verbatim>\<open>download_wallpaper\<close> raises a transport error (an
  \<^verbatim>\<open>HTTPError\<close> or a \<^verbatim>\<open>URLError\<close>), the function does not raise: it prints one line that
  contains the URL and the status code or reason, and returns the output path computed
  beforehand. That path does not depend on the network: whenever the same call completes
  under another network, it returns the same path.
\<close>

theorem download_wallpaper_transport_error:
  assumes "download_try env url (download_path env url d fn) = (evs, Inl e)"
    and "is_URLError e"
  shows "(\<exists>msg. download_wallpaper env url d fn
               = (evs @ [Print msg], Inr (download_path env url d fn))
            \<and> sublist url msg \<and> sublist (exn_detail e) msg)
       \<and> (\<forall>net evs'. download_try (env\<lparr>urlopen := net\<rparr>) url (download_path env url d fn) = (evs', Inr ())
            \<longrightarrow> download_wallpaper (env\<lparr>urlopen := net\<rparr>) url d fn
                  = (evs', Inr (download_path env url d fn)))"
proof (intro conjI allI impI)
  obtain msg where m: "download_except url (download_path env url d fn) e
                        = ([Print msg], Inr (download_path env url d fn))"
      "sublist url msg" "sublist (exn_detail e) msg"
    using download_except_transport[OF assms(2)] by blast
  show "\<exists>msg. download_wallpaper env url d fn
               = (evs @ [Print msg], Inr (download_path env url d fn))
            \<and> sublist url msg \<and> sublist (exn_detail e) msg"
    using download_wallpaper_raises[OF assms(1)] m by auto
next
  fix net evs'
  assume s: "download_try (env\<lparr>urlopen := net\<rparr>) url (download_path env url d fn) = (evs', Inr ())"
  have p: "download_path (env\<lparr>urlopen := net\<rparr>) url d fn = download_path env url d fn"
    by (simp add: download_path_def os_path_join_def)
  show "download_wallpaper (env\<lparr>urlopen := net\<rparr>) url d fn
                  = (evs', Inr (download_path env url d fn))"
    using download_wallpaper_completes[of "env\<lparr>urlopen := net\<rparr>" url d fn evs' "()"] s p by simp
qed

text \<open>A 404 on the image: the line printed and the path returned, and the successful run.\<close>

theorem download_wallpaper_transport_error_witness:
  "download_try (sample_env\<lparr>urlopen := (\<lambda>u. Inl (HTTPError 404))\<rparr>) ''http://x/img.jpg''
       (download_path (sample_env\<lparr>urlopen := (\<lambda>u. Inl (HTTPError 404))\<rparr>) ''http://x/img.jpg'' ''/p'' ''My Photo'')
     = ([UrlOpen ''http://x/img.jpg''], Inl (HTTPError 404))
   \<and> is_URLError (HTTPError 404)
   \<and> download_wallpaper (sample_env\<lparr>urlopen := (\<lambda>u. Inl (HTTPError 404))\<rparr>) ''http://x/img.jpg'' ''/p'' ''My Photo''
     = ([UrlOpen ''http://x/img.jpg'', Print ''HTTP Error: 404 http://x/img.jpg''], Inr ''/p/My Photo.jpg'')
   \<and> download_wallpaper (sample_env\<lparr>urlopen := (\<lambda>u. Inr (HTTPResponse (Inr ''JPEG'')))\<rparr>) ''http://x/img.jpg'' ''/p'' ''My Photo''
     = ([UrlOpen ''http://x/img.jpg'', Print ''Downloading http://x/img.jpg'',
         OpenWB ''/p/My Photo.jpg'', WriteFile ''/p/My Photo.jpg'' ''JPEG''], Inr ''/p/My Photo.jpg'')"
proof -
  let ?env = "sample_env\<lparr>urlopen := (\<lambda>u. Inl (HTTPError 404))\<rparr>"
  have p: "download_path ?env ''http://x/img.jpg'' ''/p'' ''My Photo'' = ''/p/My Photo.jpg''"
    by (simp add: download_path_def os_path_join_def posix_join_def sample_env_def)
  have h1: "download_try ?env ''http://x/img.jpg''
              (download_path ?env ''http://x/img.jpg'' ''/p'' ''My Photo'')
            = ([UrlOpen ''http://x/img.jpg''], Inl (HTTPError 404))"
    by (simp add: download_try_def)
  have h2: "is_URLError (HTTPError 404)" by simp
  have s: "download_try (?env\<lparr>urlopen := (\<lambda>u. Inr (HTTPResponse (Inr ''JPEG'')))\<rparr>) ''http://x/img.jpg''
              ''/p/My Photo.jpg''
            = ([UrlOpen ''http://x/img.jpg'', Print ''Downloading http://x/img.jpg'',
         OpenWB ''/p/My Photo.jpg'', WriteFile ''/p/My Photo.jpg'' ''JPEG''], Inr ())"
    by (simp add: download_try_def sample_env_def)
  from download_wallpaper_transport_error[OF h1 h2] obtain msg where
    m: "download_wallpaper ?env ''http://x/img.jpg'' ''/p'' ''My Photo''
         = ([UrlOpen ''http://x/img.jpg''] @ [Print msg], Inr ''/p/My Photo.jpg'')"
    and a: "\<And>net evs'. download_try (?env\<lparr>urlopen := net\<rparr>) ''http://x/img.jpg'' ''/p/My Photo.jpg'' = (evs', Inr ())
            \<Longrightarrow> download_wallpaper (?env\<lparr>urlopen := net\<rparr>) ''http://x/img.jpg'' ''/p'' ''My Photo''
                  = (evs', Inr ''/p/My Photo.jpg'')"
    unfolding p by blast
  have n: "str_int 404 = ''404''" by code_simp
  have msg: "msg = ''HTTP Error: 404 http://x/img.jpg''"
    using m by (simp add: download_wallpaper_def outpath_of_eq p download_try_def download_except_def n)
  show ?thesis using h1 h2 m a[OF s] msg by simp
qed


text \<open>
  Claim C9. The two \<^verbatim>\<open>except\<close> clauses cover transport errors only. When the URL opens
  but opening the output file fails, or writing to it does, with an error that is not a
  \<^verbatim>\<open>URLError\<close>, that error leaves \<^verbatim>\<open>download_wallpaper\<close>: no path is returned.
\<close>

theorem download_wallpaper_file_error_propagates:
  assumes "urlopen env url = Inr f"
    and "open_wb env (download_path env url d fn) = Some e
         \<or> (open_wb env (download_path env url d fn) = None \<and> body f = Inr bytes
            \<and> write_file env (download_path env url d fn) bytes = Some e)"
    and "\<not> is_URLError e"
  shows "snd (download_wallpaper env url d fn) = Inl e"
proof -
  obtain evs where t: "download_try env url (download_path env url d fn) = (evs, Inl e)"
    using assms(1,2) by (auto simp: download_try_def)
  have "download_except url (download_path env url d fn) e = ([], Inl e)"
    using assms(3) by (cases e) (simp_all add: download_except_def)
  with download_wallpaper_raises[OF t] show ?thesis by simp
qed

text \<open>A target directory that does not exist: \<^verbatim>\<open>open\<close> raises \<^verbatim>\<open>FileNotFoundError\<close>.\<close>

theorem download_wallpaper_file_error_propagates_witness:
  "urlopen (sample_env\<lparr>open_wb := (\<lambda>p. Some FileNotFoundError)\<rparr>) ''http://x/img.jpg''
     = Inr (HTTPResponse (Inr ''JPEG''))
   \<and> open_wb (sample_env\<lparr>open_wb := (\<lambda>p. Some FileNotFoundError)\<rparr>)
        (download_path (sample_env\<lparr>open_wb := (\<lambda>p. Some FileNotFoundError)\<rparr>)
           ''http://x/img.jpg'' ''/missing'' ''My Photo'') = Some FileNotFoundError
   \<and> \<not> is_URLError FileNotFoundError
   \<and> snd (download_wallpaper (sample_env\<lparr>open_wb := (\<lambda>p. Some FileNotFoundError)\<rparr>)
            ''http://x/img.jpg'' ''/missing'' ''My Photo'') = Inl FileNotFoundError"
proof -
  let ?env = "sample_env\<lparr>open_wb := (\<lambda>p. Some FileNotFoundError)\<rparr>"
  have h1: "urlopen ?env ''http://x/img.jpg'' = Inr (HTTPResponse (Inr ''JPEG''))"
    by (simp add: sample_env_def)
  have h2: "open_wb ?env (download_path ?env ''http://x/img.jpg'' ''/missing'' ''My Photo'')
            = Some FileNotFoundError"
    by simp
  have h3: "\<not> is_URLError FileNotFoundError" by simp
  from download_wallpaper_file_error_propagates[OF h1 disjI1[OF h2] h3] h1 h2 h3
  show ?thesis by blast
qed

text \<open>
  Claim C4. The docstring of \<^verbatim>\<open>download_wallpaper\<close> says that it cleans the filename, and
  the claim has the title sanitized. The code joins the directory with the raw title, a
  dot and the last dot-segment of the URL: a title with a path separator names a file in
  a subdirectory, and a title that starts with one leaves the picture directory.
\<close>

theorem download_wallpaper_keeps_separator:
  "download_wallpaper sample_env ''http://x/img.jpg'' ''/p'' ''Sunrise/Sunset''
     = ([UrlOpen ''http://x/img.jpg'', Print ''Downloading http://x/img.jpg'',
         OpenWB ''/p/Sunrise/Sunset.jpg'', WriteFile ''/p/Sunrise/Sunset.jpg'' ''JPEG''],
        Inr ''/p/Sunrise/Sunset.jpg'')
   \<and> download_wallpaper sample_env ''http://x/img.jpg'' ''/p'' ''/etc/motd''
     = ([UrlOpen ''http://x/img.jpg'', Print ''Downloading http://x/img.jpg'',
         OpenWB ''/etc/motd.jpg'', WriteFile ''/etc/motd.jpg'' ''JPEG''],
        Inr ''/etc/motd.jpg'')"
  by (simp add: download_wallpaper_def outpath_of_def index_last_def os_path_join_def
      posix_join_def download_try_def sample_env_def)

section \<open>Evaluating the model\<close>

lemma floor_rat_numeral: "\<lfloor>(numeral a :: rat) / numeral b\<rfloor> = numeral a div numeral b"
  using floor_divide_of_int_eq[of "numeral a" "numeral b", where ?'a = rat] by simp

lemma ceiling_rat_numeral:
  "\<lceil>(numeral a :: rat) / numeral b\<rceil> = - ((- numeral a) div numeral b)"
  using floor_divide_of_int_eq[of "- numeral a" "numeral b", where ?'a = rat]
  by (simp add: ceiling_def)

lemma floor_rat_one: "\<lfloor>(1 :: rat) / numeral b\<rfloor> = 1 div numeral b"
  using floor_divide_of_int_eq[of 1 "numeral b", where ?'a = rat] by simp

lemmas float_eval = to_double_def ilog2_def pow2_def round_half_even_def Let_def compute_bitlen
  floor_rat_numeral ceiling_rat_numeral floor_rat_one int_truediv_def float_mul_def py_round_def

lemmas free_space_eval = free_space_def get_free_bytes_def get_free_bytes_default_def float_eval

lemmas script_eval = run_script_def load_module_def lookup_set_wallpaper_def
  set_random_wallpaper_def fetch_and_set_def get_wallpaper_details_def iter_lines_def
  join_clean_lines_def find_details_def soup_find_def getitem_def unpack2_def
  download_wallpaper_def outpath_of_def index_last_def os_path_join_def posix_join_def
  download_try_def download_except_def set_wallpaper_linux_def exit_status_def

lemma get_free_bytes_posix:
  "platform env \<noteq> ''win32'' \<Longrightarrow> get_free_bytes env = get_free_bytes_default env"
  by (auto simp: get_free_bytes_def)

lemma get_free_bytes_windows:
  "platform env = ''win32'' \<Longrightarrow> get_free_bytes env = get_free_bytes_win32 env"
  by (auto simp: get_free_bytes_def)

lemma load_sample: "load_module sample_env = Inr sample_globals"
  by (simp add: load_module_def lookup_set_wallpaper_def sample_env_def sample_globals_def)

lemma picture_dir_sample: "picture_dir sample_globals = ''/home/u/Pictures/NatGeoPics''"
  by (simp add: sample_globals_def)

lemma free_space_sample: "free_space sample_env ''/home/u/Pictures/NatGeoPics'' = Inr (PyInt 60)"
  by (simp add: free_space_eval sample_env_def)

lemma free_space_low: "free_space low_space_env ''/home/u/Pictures/NatGeoPics'' = Inr (PyInt 20)"
  by (simp add: free_space_eval low_space_env_def sample_env_def)

lemma free_space_full: "free_space full_disk_env ''/home/u/Pictures/NatGeoPics'' = Inr (PyInt 0)"
  by (simp add: free_space_eval full_disk_env_def sample_env_def)

section \<open>Rounding to a double\<close>

text \<open>
  What the proofs need of \<open>to_double\<close>: a non-negative value that does not exceed an integer
  below \<open>2\<^sup>5\<^sup>3\<close> is rounded to a finite, non-negative value that does not exceed that
  integer either, because such an integer is a multiple of the quantum used.
\<close>

lemma pow2_pos: "0 < pow2 k"
  by (simp add: pow2_def)

lemma pow2_nonneg: "0 \<le> k \<Longrightarrow> pow2 k = of_int (2 ^ nat k)"
  by (simp add: pow2_def)

lemma pow2_nonpos:
  assumes "k \<le> 0"
  shows "pow2 k * of_int (2 ^ nat (- k)) = 1"
proof (cases "k = 0")
  case True
  then show ?thesis by (simp add: pow2_def)
next
  case False
  then have "pow2 k = 1 / 2 ^ nat (- k)" using assms by (simp add: pow2_def)
  then show ?thesis by simp
qed

lemma pow2_mono: "a \<le> b \<Longrightarrow> pow2 a \<le> pow2 b"
proof -
  assume ab: "a \<le> b"
  have eq: "pow2 k = 2 powi k" for k
    by (simp add: pow2_def power_int_def inverse_eq_divide power_divide)
  show ?thesis unfolding eq using ab by (intro power_int_increasing) simp_all
qed

lemma ilog2_le:
  assumes "0 < x"
  shows "pow2 (ilog2 x) \<le> x"
proof (cases "1 \<le> x")
  case True
  define n where "n = \<lfloor>x\<rfloor>"
  have n: "0 < n" using True by (simp add: n_def)
  have b: "1 \<le> bitlen n" using n by (simp add: bitlen_alt_def)
  have "2 ^ nat (bitlen n - 1) \<le> n" using bitlen_bounds[OF n] by simp
  then have "(of_int (2 ^ nat (bitlen n - 1)) :: rat) \<le> of_int n"
    by (rule of_int_le_iff[THEN iffD2])
  also have "\<dots> \<le> x" by (simp add: n_def)
  finally show ?thesis using True b by (simp add: ilog2_def n_def[symmetric] pow2_nonneg)
next
  case False
  define n where "n = \<lceil>1 / x\<rceil> - 1"
  define b where "b = bitlen n"
  have "1 < 1 / x" using False assms by simp
  then have "1 < \<lceil>1 / x\<rceil>" by (simp add: less_ceiling_iff)
  then have n: "0 < n" by (simp add: n_def)
  then have b: "1 \<le> b" by (simp add: bitlen_alt_def b_def)
  have "n < 2 ^ nat b" using bitlen_bounds[OF n] by (simp add: b_def)
  then have "n + 1 \<le> 2 ^ nat b" by simp
  then have "(of_int (n + 1) :: rat) \<le> of_int (2 ^ nat b)"
    by (rule of_int_le_iff[THEN iffD2])
  moreover have "1 / x \<le> of_int (n + 1)" by (simp add: n_def)
  ultimately have "1 / x \<le> 2 ^ nat b" by simp
  then have "1 / 2 ^ nat b \<le> x"
    using assms by (simp add: field_simps)
  moreover have "ilog2 x = - b" using False by (simp add: ilog2_def n_def b_def)
  ultimately show ?thesis using b by (simp add: pow2_def)
qed

lemma rhe_lower: "\<lfloor>q\<rfloor> \<le> round_half_even q"
  by (simp add: round_half_even_def Let_def)

lemma rhe_upper: "round_half_even q \<le> \<lfloor>q\<rfloor> + 1"
  by (simp add: round_half_even_def Let_def)

lemma rhe_of_int: "round_half_even (of_int n) = n"
  by (simp add: round_half_even_def Let_def)

lemma rhe_mono:
  assumes "a \<le> b"
  shows "round_half_even a \<le> round_half_even b"
proof (cases "\<lfloor>a\<rfloor> = \<lfloor>b\<rfloor>")
  case True
  then show ?thesis using assms by (auto simp: round_half_even_def Let_def)
next
  case False
  then have "\<lfloor>a\<rfloor> + 1 \<le> \<lfloor>b\<rfloor>" using floor_mono[OF assms] by simp
  then show ?thesis using rhe_upper[of a] rhe_lower[of b] by linarith
qed

lemma to_double_bounded:
  assumes "0 \<le> x" and "x \<le> of_int M" and "M < 2 ^ 53"
  shows "\<exists>y. to_double x = Finite y \<and> 0 \<le> y \<and> y \<le> of_int M"
proof (cases "x = 0")
  case True
  then show ?thesis using assms by (simp add: to_double_def)
next
  case False
  then have x: "0 < x" using assms(1) by simp
  define e where "e = max (ilog2 x) (- 1022)"
  define q where "q = pow2 (e - 52)"
  define m where "m = round_half_even (x / q)"
  have q: "0 < q" by (simp add: q_def pow2_pos)
  have "ilog2 x < 53"
  proof (rule ccontr)
    assume "\<not> ilog2 x < 53"
    then have "pow2 53 \<le> pow2 (ilog2 x)" by (intro pow2_mono) simp
    also have "\<dots> \<le> x" by (rule ilog2_le[OF x])
    also have "\<dots> \<le> of_int M" by (rule assms(2))
    finally have "(2 ^ 53 :: rat) \<le> of_int M" by (simp add: pow2_def)
    then have "(of_int (2 ^ 53) :: rat) \<le> of_int M" by simp
    then have "2 ^ 53 \<le> M" by (rule of_int_le_iff[THEN iffD1])
    with assms(3) show False by simp
  qed
  then have e: "e - 52 \<le> 0" by (simp add: e_def)
  define k where "k = (2::int) ^ nat (- (e - 52))"
  have qk: "q * of_int k = 1" unfolding q_def k_def by (rule pow2_nonpos[OF e])
  have Mq: "of_int M / q = of_int (M * k)"
    using qk q by (simp add: field_simps)
  have "x / q \<le> of_int M / q" using assms(2) q by (simp add: divide_right_mono)
  then have "m \<le> round_half_even (of_int (M * k))" unfolding m_def Mq by (rule rhe_mono)
  then have mM: "m \<le> M * k" by (simp only: rhe_of_int)
  have "0 \<le> x / q" using x q by simp
  then have "round_half_even 0 \<le> m" unfolding m_def by (rule rhe_mono)
  then have m0: "0 \<le> m" using rhe_of_int[of 0] by simp
  have "(of_int m :: rat) \<le> of_int (M * k)" using mM by (simp only: of_int_le_iff)
  then have "of_int m * q \<le> of_int (M * k) * q"
    using q by (intro mult_right_mono) simp_all
  also have "\<dots> = of_int M" using qk by (simp add: mult.assoc mult.commute[of _ q])
  finally have yM: "of_int m * q \<le> of_int M" .
  have y0: "0 \<le> of_int m * q" using m0 q by simp
  have "of_int M < (of_int (2 ^ 53) :: rat)" using assms(3) by (simp only: of_int_less_iff)
  also have "\<dots> \<le> pow2 1024" by (simp add: pow2_def)
  finally have fin: "\<not> pow2 1024 \<le> of_int m * q" using yM by simp
  have "to_double x = Finite (of_int m * q)"
    using x fin by (simp add: to_double_def Let_def e_def[symmetric] q_def[symmetric] m_def[symmetric])
  with yM y0 show ?thesis by simp
qed

text \<open>
  The model rounds as IEEE 754 asks: \<open>ilog2\<close> is the floor of the binary logarithm, the
  result of \<open>to_double\<close> is within half a quantum of its argument, and a value that is an
  integer of fewer than 54 bits times a power of two not below \<open>2\<^sup>-\<^sup>1\<^sup>0\<^sup>7\<^sup>4\<close> is returned
  unchanged.
\<close>

lemma pow2_powi: "pow2 k = 2 powi k"
  by (simp add: pow2_def power_int_def inverse_eq_divide power_divide)

lemma pow2_add: "pow2 (a + b) = pow2 a * pow2 b"
  unfolding pow2_powi by (simp add: power_int_add)

lemma ilog2_less:
  assumes "0 < x"
  shows "x < pow2 (ilog2 x + 1)"
proof (cases "1 \<le> x")
  case True
  define n where "n = \<lfloor>x\<rfloor>"
  have n: "0 < n" using True by (simp add: n_def)
  have b: "1 \<le> bitlen n" using n by (simp add: bitlen_alt_def)
  have "n < 2 ^ nat (bitlen n)" using bitlen_bounds[OF n] by simp
  then have "n + 1 \<le> 2 ^ nat (bitlen n)" by simp
  then have "(of_int (n + 1) :: rat) \<le> of_int (2 ^ nat (bitlen n))"
    by (rule of_int_le_iff[THEN iffD2])
  moreover have "x < of_int (n + 1)" unfolding n_def by linarith
  ultimately have "x < of_int (2 ^ nat (bitlen n))" by simp
  then show ?thesis using True b by (simp add: ilog2_def n_def[symmetric] pow2_nonneg)
next
  case False
  define n where "n = \<lceil>1 / x\<rceil> - 1"
  define b where "b = bitlen n"
  have "1 < 1 / x" using False assms by simp
  then have "1 < \<lceil>1 / x\<rceil>" by (simp add: less_ceiling_iff)
  then have n: "0 < n" by (simp add: n_def)
  then have b: "1 \<le> b" by (simp add: bitlen_alt_def b_def)
  have "2 ^ nat (b - 1) \<le> n" using bitlen_bounds[OF n] by (simp add: b_def)
  then have A: "(of_int (2 ^ nat (b - 1)) :: rat) \<le> of_int n"
    by (rule of_int_le_iff[THEN iffD2])
  have B: "of_int n < 1 / x" unfolding n_def by linarith
  have "(of_int (2 ^ nat (b - 1)) :: rat) < 1 / x" by (rule le_less_trans[OF A B])
  then have "2 ^ nat (b - 1) < 1 / x" by simp
  then have lt: "x < 1 / 2 ^ nat (b - 1)"
    using assms by (simp add: field_simps)
  have il: "ilog2 x + 1 = 1 - b" using False by (simp add: ilog2_def n_def b_def)
  show ?thesis
  proof (cases "b = 1")
    case True
    then show ?thesis using lt il by (simp add: pow2_def)
  next
    case False
    then have "1 - b < 0" using b by simp
    then have "pow2 (1 - b) = 1 / 2 ^ nat (b - 1)" by (simp add: pow2_def)
    then show ?thesis using lt il by simp
  qed
qed

lemma rhe_nearest: "\<bar>of_int (round_half_even q) - q\<bar> \<le> 1 / 2"
proof -
  define f where "f = \<lfloor>q\<rfloor>"
  have f: "of_int f \<le> q" "q < of_int f + 1" unfolding f_def by linarith+
  have "round_half_even q =
          (if q - of_int f < 1 / 2 then f
           else if 1 / 2 < q - of_int f then f + 1
           else if even f then f else f + 1)"
    by (simp add: round_half_even_def Let_def f_def)
  then show ?thesis using f by (auto simp: abs_if)
qed

lemma to_double_nearest:
  assumes "to_double x = Finite y"
  shows "\<bar>y - x\<bar> \<le> pow2 (max (ilog2 \<bar>x\<bar>) (- 1022) - 52) / 2"
proof (cases "x = 0")
  case True
  then show ?thesis using assms pow2_pos[of "max (ilog2 \<bar>x\<bar>) (- 1022) - 52"]
    by (simp add: to_double_def)
next
  case False
  define q where "q = pow2 (max (ilog2 \<bar>x\<bar>) (- 1022) - 52)"
  define m where "m = round_half_even (\<bar>x\<bar> / q)"
  have q: "0 < q" by (simp add: q_def pow2_pos)
  have y: "y = sgn x * (of_int m * q)"
    using assms False
    by (simp add: to_double_def Let_def q_def[symmetric] m_def[symmetric] split: if_splits)
  have "\<bar>of_int m - \<bar>x\<bar> / q\<bar> \<le> 1 / 2" unfolding m_def by (rule rhe_nearest)
  then have "\<bar>of_int m - \<bar>x\<bar> / q\<bar> * q \<le> 1 / 2 * q"
    using q by (intro mult_right_mono) simp_all
  moreover have "\<bar>of_int m - \<bar>x\<bar> / q\<bar> * q = \<bar>of_int m * q - \<bar>x\<bar>\<bar>"
  proof -
    have "\<bar>of_int m - \<bar>x\<bar> / q\<bar> * q = \<bar>(of_int m - \<bar>x\<bar> / q) * q\<bar>"
      using q by (simp add: abs_mult)
    also have "(of_int m - \<bar>x\<bar> / q) * q = of_int m * q - \<bar>x\<bar>"
      using q by (simp add: field_simps)
    finally show ?thesis .
  qed
  ultimately have d: "\<bar>of_int m * q - \<bar>x\<bar>\<bar> \<le> q / 2" by simp
  have "\<bar>y - x\<bar> = \<bar>of_int m * q - \<bar>x\<bar>\<bar>"
  proof (cases "0 < x")
    case True
    then show ?thesis by (simp add: y)
  next
    case neg: False
    then have "x < 0" using False by simp
    then have "y - x = - (of_int m * q - \<bar>x\<bar>)" by (simp add: y)
    then show ?thesis by (simp only: abs_minus)
  qed
  with d show ?thesis by (simp add: q_def)
qed

lemma to_double_fixes_double:
  assumes "\<bar>m\<bar> < 2 ^ 53" and "- 1074 \<le> k" and "\<bar>of_int m * pow2 k\<bar> < pow2 1024"
  shows "to_double (of_int m * pow2 k) = Finite (of_int m * pow2 k)"
proof (cases "m = 0")
  case True
  then show ?thesis by (simp add: to_double_def)
next
  case False
  define x where "x = of_int m * pow2 k"
  have x0: "x \<noteq> 0" using False pow2_pos[of k] by (simp add: x_def)
  have ax: "\<bar>x\<bar> = of_int \<bar>m\<bar> * pow2 k" using pow2_pos[of k] by (simp add: x_def abs_mult)
  define e where "e = max (ilog2 \<bar>x\<bar>) (- 1022)"
  define q where "q = pow2 (e - 52)"
  have q: "0 < q" by (simp add: q_def pow2_pos)
  have "ilog2 \<bar>x\<bar> < 53 + k"
  proof (rule ccontr)
    assume "\<not> ilog2 \<bar>x\<bar> < 53 + k"
    then have "pow2 (53 + k) \<le> pow2 (ilog2 \<bar>x\<bar>)" by (intro pow2_mono) simp
    also have "\<dots> \<le> \<bar>x\<bar>" using x0 by (intro ilog2_le) simp
    finally have "pow2 53 * pow2 k \<le> of_int \<bar>m\<bar> * pow2 k" by (simp add: pow2_add ax)
    then have "pow2 53 \<le> of_int \<bar>m\<bar>" using pow2_pos[of k] by simp
    then have "(of_int (2 ^ 53) :: rat) \<le> of_int \<bar>m\<bar>" by (simp add: pow2_def)
    then have "2 ^ 53 \<le> \<bar>m\<bar>" by (simp only: of_int_le_iff)
    with assms(1) show False by simp
  qed
  then have ek: "0 \<le> k - (e - 52)" using assms(2) by (simp add: e_def)
  have "pow2 k = pow2 (k - (e - 52)) * q" unfolding q_def pow2_add[symmetric] by simp
  then have "\<bar>x\<bar> / q = of_int \<bar>m\<bar> * pow2 (k - (e - 52))" using q by (simp add: ax)
  also have "\<dots> = of_int (\<bar>m\<bar> * 2 ^ nat (k - (e - 52)))" by (simp add: pow2_nonneg[OF ek])
  finally have "round_half_even (\<bar>x\<bar> / q) = \<bar>m\<bar> * 2 ^ nat (k - (e - 52))"
    by (simp only: rhe_of_int)
  then have "of_int (round_half_even (\<bar>x\<bar> / q)) * q = of_int \<bar>m\<bar> * (pow2 (k - (e - 52)) * q)"
    by (simp add: pow2_nonneg[OF ek])
  also have "\<dots> = \<bar>x\<bar>" unfolding q_def pow2_add[symmetric] by (simp add: ax)
  finally have r: "of_int (round_half_even (\<bar>x\<bar> / q)) * q = \<bar>x\<bar>" .
  have "sgn x * \<bar>x\<bar> = x" by (simp add: sgn_mult_abs)
  then have "to_double x = Finite x"
    using x0 assms(3) r
    by (simp add: to_double_def Let_def e_def[symmetric] q_def[symmetric] x_def[symmetric])
  then show ?thesis by (simp add: x_def)
qed

section \<open>Properties of the disk space checker\<close>

text \<open>
  Claim C10. When the query reports a total of 0 bytes, \<^verbatim>\<open>free_space\<close> raises
  \<^verbatim>\<open>ZeroDivisionError\<close>: the division is outside the \<^verbatim>\<open>try\<close> block. The sentinel \<^verbatim>\<open>False\<close>
  is returned exactly when the query raises an \<^verbatim>\<open>OSError\<close>.
\<close>

theorem free_space_zero_total:
  "(\<forall>free_bytes. get_free_bytes env dir = Inr (free_bytes, 0)
        \<longrightarrow> free_space env dir = Inl ZeroDivisionError)
   \<and> (free_space env dir = Inr PyFalse
        \<longleftrightarrow> (\<exists>e. get_free_bytes env dir = Inl e \<and> is_OSError e))"
  by (auto simp: free_space_def int_truediv_def split: sum.splits if_splits prod.splits)

text \<open>A file system of zero blocks, and a directory that does not exist.\<close>

theorem free_space_zero_total_witness:
  "get_free_bytes empty_fs_env ''/home/u/Pictures/NatGeoPics'' = Inr (0, 0)
   \<and> free_space empty_fs_env ''/home/u/Pictures/NatGeoPics'' = Inl ZeroDivisionError
   \<and> get_free_bytes empty_fs_env ''/nowhere'' = Inl OSError
   \<and> is_OSError OSError
   \<and> free_space empty_fs_env ''/nowhere'' = Inr PyFalse"
proof -
  have p: "platform empty_fs_env \<noteq> ''win32''" by (simp add: empty_fs_env_def sample_env_def)
  have a: "get_free_bytes empty_fs_env ''/home/u/Pictures/NatGeoPics'' = Inr (0, 0)"
    by (subst get_free_bytes_posix[OF p]) (simp add: get_free_bytes_default_def empty_fs_env_def)
  have b: "get_free_bytes empty_fs_env ''/nowhere'' = Inl OSError"
    by (subst get_free_bytes_posix[OF p]) (simp add: get_free_bytes_default_def empty_fs_env_def)
  have c: "is_OSError OSError" by simp
  note t1 = free_space_zero_total[of empty_fs_env "''/home/u/Pictures/NatGeoPics''"]
  note t2 = free_space_zero_total[of empty_fs_env "''/nowhere''"]
  have d: "free_space empty_fs_env ''/home/u/Pictures/NatGeoPics'' = Inl ZeroDivisionError"
    by (rule t1[THEN conjunct1, THEN spec, THEN mp, OF a])
  have "\<exists>e. get_free_bytes empty_fs_env ''/nowhere'' = Inl e \<and> is_OSError e"
    by (rule exI[of _ OSError]) (rule conjI[OF b c])
  then have e: "free_space empty_fs_env ''/nowhere'' = Inr PyFalse"
    by (rule t2[THEN conjunct2, THEN iffD2])
  show ?thesis by (intro conjI a b c d e)
qed

text \<open>
  Claim C7. When the query reports \<open>T > 0\<close> total bytes and \<open>0 \<le> F \<le> T\<close> free bytes,
  \<^verbatim>\<open>free_space\<close> does not raise and returns \<^verbatim>\<open>round(F / T * 100)\<close>, an integer between 0 and
  100. The operations are Python's: \<open>q\<close> is the double nearest to the quotient, \<open>p\<close> the
  double nearest to \<open>q\<close> times 100, and \<^verbatim>\<open>round\<close> takes \<open>p\<close> to the nearest integer, ties to
  even.
\<close>

theorem free_space_percentage:
  assumes "get_free_bytes env dir = Inr (F, T)" and "0 < T" and "0 \<le> F" and "F \<le> T"
  shows "\<exists>q p. to_double (of_int F / of_int T) = Finite q
             \<and> to_double (q * 100) = Finite p
             \<and> free_space env dir = Inr (PyInt (round_half_even p))
             \<and> 0 \<le> round_half_even p \<and> round_half_even p \<le> 100"
proof -
  have T: "(0::rat) < of_int T" using assms(2) by simp
  have x0: "(0::rat) \<le> of_int F / of_int T" using assms(2,3) by simp
  have "(of_int F :: rat) \<le> of_int T" using assms(4) by (simp only: of_int_le_iff)
  then have x1: "(of_int F :: rat) / of_int T \<le> of_int 1" using T by simp
  obtain q where q: "to_double (of_int F / of_int T) = Finite q" "0 \<le> q" "q \<le> of_int 1"
    using to_double_bounded[OF x0 x1] by auto
  have y0: "0 \<le> q * 100" using q(2) by simp
  have y1: "q * 100 \<le> of_int 100" using q(3) by simp
  obtain p where p: "to_double (q * 100) = Finite p" "0 \<le> p" "p \<le> of_int 100"
    using to_double_bounded[OF y0 y1] by auto
  have "round_half_even 0 \<le> round_half_even p" using p(2) by (rule rhe_mono)
  then have r0: "0 \<le> round_half_even p" using rhe_of_int[of 0] by simp
  have "round_half_even p \<le> round_half_even (of_int 100)" using p(3) by (rule rhe_mono)
  then have r1: "round_half_even p \<le> 100" by (simp only: rhe_of_int)
  have "free_space env dir = Inr (PyInt (round_half_even p))"
    using assms(1,2) q(1) p(1)
    by (simp add: free_space_def int_truediv_def float_mul_def py_round_def)
  with q(1) p(1) r0 r1 show ?thesis by blast
qed

text \<open>The sample machine: 600 of 1000 blocks of 4096 bytes are free.\<close>

theorem free_space_percentage_witness:
  "get_free_bytes sample_env ''/home/u/Pictures/NatGeoPics'' = Inr (2457600, 4096000)
   \<and> (0::int) < 4096000 \<and> (0::int) \<le> 2457600 \<and> (2457600::int) \<le> 4096000
   \<and> to_double (of_int 2457600 / of_int 4096000) = Finite (5404319552844595 / 2 ^ 53)
   \<and> to_double (5404319552844595 / 2 ^ 53 * 100) = Finite 60
   \<and> free_space sample_env ''/home/u/Pictures/NatGeoPics'' = Inr (PyInt 60)"
proof -
  have p: "platform sample_env \<noteq> ''win32''" by (simp add: sample_env_def)
  have a: "get_free_bytes sample_env ''/home/u/Pictures/NatGeoPics'' = Inr (2457600, 4096000)"
    by (subst get_free_bytes_posix[OF p]) (simp add: get_free_bytes_default_def sample_env_def)
  have b: "(0::int) < 4096000" by simp
  have c: "(0::int) \<le> 2457600" by simp
  have d: "(2457600::int) \<le> 4096000" by simp
  have q: "to_double (of_int 2457600 / of_int 4096000) = Finite (5404319552844595 / 2 ^ 53)"
    by (simp add: float_eval)
  have r: "to_double (5404319552844595 / 2 ^ 53 * 100) = Finite 60"
    by (simp add: float_eval)
  from free_space_percentage[OF a b c d] obtain q' p' where
      h: "to_double (of_int 2457600 / of_int 4096000) = Finite q'"
         "to_double (q' * 100) = Finite p'"
         "free_space sample_env ''/home/u/Pictures/NatGeoPics'' = Inr (PyInt (round_half_even p'))"
    by blast
  from h(1) q have "q' = 5404319552844595 / 2 ^ 53" by simp
  with h(2) r have "p' = 60" by simp
  with h(3) have e: "free_space sample_env ''/home/u/Pictures/NatGeoPics'' = Inr (PyInt 60)"
    using rhe_of_int[of 60] by simp
  show ?thesis by (intro conjI a b c d q r e)
qed

text \<open>
  The value is that of the float expression, not of exact arithmetic: one free byte in
  200 gives 0.5, which rounds to the even 0, and a quotient just under 0.015 becomes
  exactly 1.5 after the two roundings, which rounds to 2.
\<close>

lemma free_space_tie_to_even:
  "get_free_bytes env dir = Inr (1, 200) \<Longrightarrow> free_space env dir = Inr (PyInt 0)"
  by (simp add: free_space_def float_eval)

lemma free_space_float_rounding:
  "get_free_bytes env dir = Inr (1499999999999999999, 100000000000000000000)
   \<Longrightarrow> free_space env dir = Inr (PyInt 2)"
  by (simp add: free_space_def float_eval)

text \<open>
  Claim C6. When the free-space query for a directory raises an \<^verbatim>\<open>OSError\<close> (the
  directory does not exist, or the call fails), \<^verbatim>\<open>free_space\<close> returns \<^verbatim>\<open>False\<close> instead of
  raising, and a driver whose picture directory it is prints that the directory does
  not exist and exits with code 1.
\<close>

theorem missing_directory_exit_1:
  assumes "get_free_bytes env dir = Inl e" and "is_OSError e"
  shows "free_space env dir = Inr PyFalse
       \<and> (\<forall>g. picture_dir g = dir \<longrightarrow>
             set_random_wallpaper env g
               = ([Print (dir @ '' does not exist, please create.'')], Inl (SystemExit 1))
             \<and> exit_status (snd (set_random_wallpaper env g)) = 1)"
  using assms by (simp add: free_space_def set_random_wallpaper_def exit_status_def)

text \<open>The sample machine without its picture directory.\<close>

theorem missing_directory_exit_1_witness:
  "get_free_bytes missing_dir_env ''/home/u/Pictures/NatGeoPics'' = Inl OSError
   \<and> is_OSError OSError
   \<and> free_space missing_dir_env ''/home/u/Pictures/NatGeoPics'' = Inr PyFalse
   \<and> picture_dir sample_globals = ''/home/u/Pictures/NatGeoPics''
   \<and> set_random_wallpaper missing_dir_env sample_globals
       = ([Print ''/home/u/Pictures/NatGeoPics does not exist, please create.''],
          Inl (SystemExit 1))
   \<and> exit_status (snd (set_random_wallpaper missing_dir_env sample_globals)) = 1"
proof -
  have p: "platform missing_dir_env \<noteq> ''win32''"
    by (simp add: missing_dir_env_def sample_env_def)
  have a: "get_free_bytes missing_dir_env ''/home/u/Pictures/NatGeoPics'' = Inl OSError"
    by (subst get_free_bytes_posix[OF p]) (simp add: get_free_bytes_default_def missing_dir_env_def)
  have b: "is_OSError OSError" by simp
  note t = missing_directory_exit_1[OF a b]
  note c = picture_dir_sample
  have d: "free_space missing_dir_env ''/home/u/Pictures/NatGeoPics'' = Inr PyFalse"
    by (rule t[THEN conjunct1])
  note r = t[THEN conjunct2, THEN spec, THEN mp, OF c]
  have e: "set_random_wallpaper missing_dir_env sample_globals
       = ([Print ''/home/u/Pictures/NatGeoPics does not exist, please create.''],
          Inl (SystemExit 1))"
    using r[THEN conjunct1] by simp
  have f: "exit_status (snd (set_random_wallpaper missing_dir_env sample_globals)) = 1"
    by (rule r[THEN conjunct2])
  show ?thesis by (intro conjI a b c d e f)
qed

section \<open>Properties of the driver\<close>

text \<open>
  Claim C2. The guard \<^verbatim>\<open>if not fs\<close> is written for the sentinel \<^verbatim>\<open>False\<close>, but it holds for
  the percentage \<^verbatim>\<open>0\<close> as well: on a full disk under an existing picture directory the
  driver does not reach the test against the minimum. It prints that the directory does
  not exist and exits with code 1, where the claim, and the code's own message for low
  space, ask for code 2.
\<close>

theorem zero_percent_exit_1:
  "free_space full_disk_env (picture_dir sample_globals) = Inr (PyInt 0)
   \<and> 0 \<le> free_space_minimum sample_globals
   \<and> set_random_wallpaper full_disk_env sample_globals
       = ([Print ''/home/u/Pictures/NatGeoPics does not exist, please create.''],
          Inl (SystemExit 1))
   \<and> exit_status (snd (set_random_wallpaper full_disk_env sample_globals)) \<noteq> 2"
proof -
  have m: "free_space_minimum sample_globals = 25" by (simp add: sample_globals_def)
  show ?thesis
    by (simp add: set_random_wallpaper_def picture_dir_sample m free_space_full exit_status_def)
qed

text \<open>
  The path next to it does what is asked: when \<^verbatim>\<open>free_space\<close> returns a percentage that is
  not 0 and is at most the configured minimum, the driver prints the shortage and exits
  with code 2, and the run has no network event: the metadata fetcher and the downloader
  are not called.
\<close>

theorem low_space_exit_2:
  assumes "free_space env (picture_dir g) = Inr (PyInt p)"
    and "p \<noteq> 0" and "p \<le> free_space_minimum g"
  shows "set_random_wallpaper env g
           = ([Print (''Not enough free space in '' @ picture_dir g @ ''! (''
                      @ str_int p @ ''% free)'')], Inl (SystemExit 2))
       \<and> exit_status (snd (set_random_wallpaper env g)) = 2
       \<and> filter is_network (fst (set_random_wallpaper env g)) = []"
  using assms by (simp add: set_random_wallpaper_def exit_status_def)

text \<open>A disk with 20 percent free against the default minimum of 25.\<close>

theorem low_space_exit_2_witness:
  "free_space low_space_env (picture_dir sample_globals) = Inr (PyInt 20)
   \<and> (20::int) \<noteq> 0 \<and> 20 \<le> free_space_minimum sample_globals
   \<and> set_random_wallpaper low_space_env sample_globals
       = ([Print ''Not enough free space in /home/u/Pictures/NatGeoPics! (20% free)''],
          Inl (SystemExit 2))
   \<and> exit_status (snd (set_random_wallpaper low_space_env sample_globals)) = 2
   \<and> filter is_network (fst (set_random_wallpaper low_space_env sample_globals)) = []"
proof -
  note c = picture_dir_sample
  have a: "free_space low_space_env (picture_dir sample_globals) = Inr (PyInt 20)"
    by (simp add: c free_space_low)
  have b: "(20::int) \<noteq> 0" by simp
  have m: "20 \<le> free_space_minimum sample_globals" by (simp add: sample_globals_def)
  have n: "str_int 20 = ''20''" by code_simp
  note t = low_space_exit_2[OF a b m]
  have e: "set_random_wallpaper low_space_env sample_globals
       = ([Print ''Not enough free space in /home/u/Pictures/NatGeoPics! (20% free)''],
          Inl (SystemExit 2))"
    using t[THEN conjunct1] by (simp add: c n)
  show ?thesis
    by (intro conjI a b m e t[THEN conjunct2, THEN conjunct1] t[THEN conjunct2, THEN conjunct2])
qed

text \<open>
  What happens, in any environment, when no URL is found: after a transport failure
  \<^verbatim>\<open>get_wallpaper_details\<close> returns \<^verbatim>\<open>False\<close> and the driver raises \<^verbatim>\<open>TypeError\<close> on unpacking
  it; without a \<^verbatim>\<open>twitter:image:src\<close> element the subscript raises \<^verbatim>\<open>TypeError\<close>.
\<close>

lemma transport_failure_TypeError:
  assumes "urlopen env (base_url g) = Inl e" and "is_URLError e"
  shows "get_wallpaper_details env (base_url g) = ([UrlOpen (base_url g)], Inr DetailsFalse)"
    and "fetch_and_set env g = ([UrlOpen (base_url g)], Inl TypeError)"
  using assms by (simp_all add: get_wallpaper_details_def fetch_and_set_def unpack2_def)

lemma missing_tag_TypeError:
  assumes "urlopen env (base_url g) = Inr res" and "body res = Inr bytes"
    and "BeautifulSoup env (join_clean_lines (readlines bytes)) = Inr soup"
    and "soup_find soup ''meta'' [(''name'', ''twitter:image:src'')] = None"
  shows "fetch_and_set env g
         = ([UrlOpen (base_url g), Parse (join_clean_lines (readlines bytes))], Inl TypeError)"
  using assms
  by (simp add: get_wallpaper_details_def fetch_and_set_def iter_lines_def find_details_def
      getitem_def)

text \<open>
  Claim C1. The driver tests \<^verbatim>\<open>not url\<close> and exits with code 3, but neither case of the
  claim reaches that test. With the network down, \<^verbatim>\<open>get_wallpaper_details\<close> returns \<^verbatim>\<open>False\<close>
  and unpacking it into \<^verbatim>\<open>url, title\<close> raises \<^verbatim>\<open>TypeError\<close>; with a page that lacks the
  \<^verbatim>\<open>twitter:image:src\<close> element, subscripting \<^verbatim>\<open>None\<close> raises \<^verbatim>\<open>TypeError\<close> inside
  \<^verbatim>\<open>get_wallpaper_details\<close>. Both runs end with an uncaught exception, exit status 1.
\<close>

theorem no_url_raises_TypeError:
  "run_script offline_env
     = ([UrlOpen ''http://photography.nationalgeographic.com/photography/photo-of-the-day''],
        Inl TypeError)
   \<and> exit_status (snd (run_script offline_env)) = 1
   \<and> run_script untagged_env
     = ([UrlOpen ''http://photography.nationalgeographic.com/photography/photo-of-the-day'',
         Parse (''<meta name=twitter:title content=My Photo>'' @ [CHR 0x0A])],
        Inl TypeError)
   \<and> exit_status (snd (run_script untagged_env)) = 1"
  by (simp add: script_eval free_space_eval offline_env_def untagged_env_def sample_env_def
      untagged_page_def sample_clean_page_def title_only_soup_def)

text \<open>
  Claim C5, as stated, fails: on a platform without a setter the lookup
  \<^verbatim>\<open>globals()['_set_wallpaper_' + sys.platform]\<close> raises \<^verbatim>\<open>KeyError\<close> while the module is
  loaded, so the run ends before the driver starts, with no event at all; the
  wallpaper-setting step, which on a supported platform comes after the disk check, the
  page fetch and the download, is never reached.
\<close>

theorem unsupported_platform_fails_at_load:
  "run_script (sample_env\<lparr>platform := ''sunos5''\<rparr>) = ([], Inl (KeyError ''_set_wallpaper_sunos5''))
   \<and> fst (run_script sample_env)
       = [UrlOpen ''http://photography.nationalgeographic.com/photography/photo-of-the-day'',
          Parse (''<meta name=twitter:image:src content=http://x/img.jpg>'' @ [CHR 0x0A]
                 @ ''<meta name=twitter:title content=My Photo>'' @ [CHR 0x0A]),
          UrlOpen ''http://x/img.jpg'', Print ''Downloading http://x/img.jpg'',
          OpenWB ''/home/u/Pictures/NatGeoPics/My Photo.jpg'',
          WriteFile ''/home/u/Pictures/NatGeoPics/My Photo.jpg'' ''JPEG'',
          Popen [''gconftool-2'', ''-t'', ''str'', ''--set'',
                 ''/desktop/gnome/background/picture_filename'',
                 ''/home/u/Pictures/NatGeoPics/My Photo.jpg'']]"
proof -
  have a: "run_script (sample_env\<lparr>platform := ''sunos5''\<rparr>)
           = ([], Inl (KeyError ''_set_wallpaper_sunos5''))"
    by (simp add: run_script_def load_module_def lookup_set_wallpaper_def)
  have b: "fst (run_script sample_env)
       = [UrlOpen ''http://photography.nationalgeographic.com/photography/photo-of-the-day'',
          Parse (''<meta name=twitter:image:src content=http://x/img.jpg>'' @ [CHR 0x0A]
                 @ ''<meta name=twitter:title content=My Photo>'' @ [CHR 0x0A]),
          UrlOpen ''http://x/img.jpg'', Print ''Downloading http://x/img.jpg'',
          OpenWB ''/home/u/Pictures/NatGeoPics/My Photo.jpg'',
          WriteFile ''/home/u/Pictures/NatGeoPics/My Photo.jpg'' ''JPEG'',
          Popen [''gconftool-2'', ''-t'', ''str'', ''--set'',
                 ''/desktop/gnome/background/picture_filename'',
                 ''/home/u/Pictures/NatGeoPics/My Photo.jpg'']]"
    by (simp add: script_eval free_space_eval sample_env_def sample_page_def
        sample_clean_page_def sample_soup_def)
  show ?thesis by (intro conjI a b)
qed

text \<open>
  Claim C5, amended. When the platform name is none of \<^verbatim>\<open>linux\<close>, \<^verbatim>\<open>win32\<close> and \<^verbatim>\<open>darwin\<close>,
  running the script raises \<^verbatim>\<open>KeyError\<close> with the missing name \<^verbatim>\<open>_set_wallpaper_<platform>\<close>
  while the module is loaded, before any step of the driver; the process ends with an
  uncaught exception (exit status 1), never silently.
\<close>

theorem unsupported_platform_KeyError:
  assumes "platform env \<notin> {''linux'', ''win32'', ''darwin''}"
  shows "run_script env = ([], Inl (KeyError (''_set_wallpaper_'' @ platform env)))
       \<and> exit_status (snd (run_script env)) = 1"
  using assms by (simp add: run_script_def load_module_def lookup_set_wallpaper_def exit_status_def)

text \<open>The sample machine under the platform name \<^verbatim>\<open>sunos5\<close>.\<close>

theorem unsupported_platform_KeyError_witness:
  "platform (sample_env\<lparr>platform := ''sunos5''\<rparr>) \<notin> {''linux'', ''win32'', ''darwin''}
   \<and> run_script (sample_env\<lparr>platform := ''sunos5''\<rparr>)
       = ([], Inl (KeyError ''_set_wallpaper_sunos5''))
   \<and> exit_status (snd (run_script (sample_env\<lparr>platform := ''sunos5''\<rparr>))) = 1"
proof -
  have a: "platform (sample_env\<lparr>platform := ''sunos5''\<rparr>) \<notin> {''linux'', ''win32'', ''darwin''}"
    by simp
  note t = unsupported_platform_KeyError[OF a]
  have b: "run_script (sample_env\<lparr>platform := ''sunos5''\<rparr>)
       = ([], Inl (KeyError ''_set_wallpaper_sunos5''))"
    using t[THEN conjunct1] by simp
  show ?thesis by (intro conjI a b t[THEN conjunct2])
qed

section \<open>Properties of the metadata fetcher\<close>

lemma bytes_in_iff_sublist: "bytes_in needle hay \<longleftrightarrow> sublist needle hay"
  by (induction hay) (simp_all add: sublist_Cons_right)

lemma join_clean_lines_eq:
  "join_clean_lines res = concat (filter (\<lambda>line. \<not> sublist ''document.write'' line) res)"
  unfolding join_clean_lines_def bytes_in_iff_sublist
  by (induction res) simp_all

lemma concat_readlines: "concat (readlines bytes) = bytes"
  by (induction bytes) (auto split: list.splits)

lemma join_clean_lines_spec: "join_clean_lines (readlines bytes) = spec_parser_input bytes"
  by (simp add: join_clean_lines_eq spec_parser_input_def)

text \<open>
  Claim C8. When the page is fetched and read, the HTML parser is called once, and its
  argument is the concatenation, in their order, of the lines of the body that do not
  contain \<^verbatim>\<open>document.write\<close>; the lines that contain it are left out. The outcome of
  \<^verbatim>\<open>get_wallpaper_details\<close> is decided by what the parser answers for that argument and
  for no other: when it returns a document, the details are those found in that
  document, and when it raises, that exception meets the \<^verbatim>\<open>except\<close> clause.
\<close>

theorem parser_gets_clean_lines:
  assumes "urlopen env u = Inr res" and "body res = Inr bytes"
  shows "parsed (fst (get_wallpaper_details env u)) = [spec_parser_input bytes]
       \<and> (\<forall>soup. BeautifulSoup env (spec_parser_input bytes) = Inr soup \<longrightarrow>
             get_wallpaper_details env u
               = ([UrlOpen u, Parse (spec_parser_input bytes)], find_details soup))
       \<and> (\<forall>e. BeautifulSoup env (spec_parser_input bytes) = Inl e \<longrightarrow>
             snd (get_wallpaper_details env u)
               = (if has_HTMLParseError env
                  then (case e of HTMLParseError msg \<Rightarrow> Inl (SystemExit 4) | _ \<Rightarrow> Inl e)
                  else Inl AttributeError))"
proof (intro conjI allI impI)
  show "parsed (fst (get_wallpaper_details env u)) = [spec_parser_input bytes]"
    using assms
    by (simp add: get_wallpaper_details_def iter_lines_def Let_def join_clean_lines_spec
        split: sum.splits exn.splits)
next
  fix soup
  assume "BeautifulSoup env (spec_parser_input bytes) = Inr soup"
  then show "get_wallpaper_details env u
               = ([UrlOpen u, Parse (spec_parser_input bytes)], find_details soup)"
    using assms
    by (simp add: get_wallpaper_details_def iter_lines_def Let_def join_clean_lines_spec)
next
  fix e
  assume "BeautifulSoup env (spec_parser_input bytes) = Inl e"
  then show "snd (get_wallpaper_details env u)
               = (if has_HTMLParseError env
                  then (case e of HTMLParseError msg \<Rightarrow> Inl (SystemExit 4) | _ \<Rightarrow> Inl e)
                  else Inl AttributeError)"
    using assms
    by (simp add: get_wallpaper_details_def iter_lines_def Let_def join_clean_lines_spec
        split: exn.splits)
qed

text \<open>
  The sample page: its second line holds the marker. The parser of the sample machine
  finds nothing in the page as served and both elements in the page without that line,
  and the fetcher returns the two details.
\<close>

theorem parser_gets_clean_lines_witness:
  "urlopen sample_env (base_url sample_globals) = Inr (HTTPResponse (Inr sample_page))
   \<and> body (HTTPResponse (Inr sample_page)) = Inr sample_page
   \<and> readlines sample_page
       = [''<meta name=twitter:image:src content=http://x/img.jpg>'' @ [CHR 0x0A],
          ''<script>document.write(1)</script>'' @ [CHR 0x0A],
          ''<meta name=twitter:title content=My Photo>'' @ [CHR 0x0A]]
   \<and> spec_parser_input sample_page
       = ''<meta name=twitter:image:src content=http://x/img.jpg>'' @ [CHR 0x0A]
          @ ''<meta name=twitter:title content=My Photo>'' @ [CHR 0x0A]
   \<and> BeautifulSoup sample_env sample_page = Inr []
   \<and> BeautifulSoup sample_env (spec_parser_input sample_page) = Inr sample_soup
   \<and> parsed (fst (get_wallpaper_details sample_env (base_url sample_globals)))
       = [''<meta name=twitter:image:src content=http://x/img.jpg>'' @ [CHR 0x0A]
          @ ''<meta name=twitter:title content=My Photo>'' @ [CHR 0x0A]]
   \<and> snd (get_wallpaper_details sample_env (base_url sample_globals))
       = Inr (URLDetail ''http://x/img.jpg'' ''My Photo'')"
proof -
  have a: "urlopen sample_env (base_url sample_globals) = Inr (HTTPResponse (Inr sample_page))"
    by (simp add: sample_env_def sample_globals_def)
  have b: "body (HTTPResponse (Inr sample_page)) = Inr sample_page" by simp
  have l: "readlines sample_page
       = [''<meta name=twitter:image:src content=http://x/img.jpg>'' @ [CHR 0x0A],
          ''<script>document.write(1)</script>'' @ [CHR 0x0A],
          ''<meta name=twitter:title content=My Photo>'' @ [CHR 0x0A]]"
    by (simp add: sample_page_def)
  have s: "spec_parser_input sample_page
       = ''<meta name=twitter:image:src content=http://x/img.jpg>'' @ [CHR 0x0A]
          @ ''<meta name=twitter:title content=My Photo>'' @ [CHR 0x0A]"
    unfolding spec_parser_input_def l by (simp add: bytes_in_iff_sublist[symmetric])
  have r: "BeautifulSoup sample_env sample_page = Inr []"
    by (simp add: sample_env_def sample_page_def sample_clean_page_def untagged_page_def)
  have c: "BeautifulSoup sample_env (spec_parser_input sample_page) = Inr sample_soup"
    unfolding s by (simp add: sample_env_def sample_clean_page_def)
  note t = parser_gets_clean_lines[OF a b]
  have p: "parsed (fst (get_wallpaper_details sample_env (base_url sample_globals)))
       = [''<meta name=twitter:image:src content=http://x/img.jpg>'' @ [CHR 0x0A]
          @ ''<meta name=twitter:title content=My Photo>'' @ [CHR 0x0A]]"
    using t[THEN conjunct1] unfolding s .
  have f: "find_details sample_soup = Inr (URLDetail ''http://x/img.jpg'' ''My Photo'')"
    by (simp add: find_details_def soup_find_def getitem_def sample_soup_def)
  have "get_wallpaper_details sample_env (base_url sample_globals)
          = ([UrlOpen (base_url sample_globals), Parse (spec_parser_input sample_page)],
             find_details sample_soup)"
    by (rule t[THEN conjunct2, THEN conjunct1, THEN spec, THEN mp, OF c])
  then have d: "snd (get_wallpaper_details sample_env (base_url sample_globals))
       = Inr (URLDetail ''http://x/img.jpg'' ''My Photo'')"
    by (simp add: f)
  show ?thesis by (intro conjI a b l s r c p d)
qed

end
